theory Spec2Isabelle
  imports Main "HOL-Library.Sublist" "HOL-Library.Multiset"
begin

section \<open>The error-propagation pass (authorization/move-errors-to-output-nodes.ts)\<close>

subsection \<open>Objects as the visitor sees them\<close>

text \<open>
  \<open>visitObject\<close> walks arbitrary JavaScript objects through \<open>Object.keys\<close>, so the
  query tree is modelled the way the visitor reads it: an object is its class (its
  constructor) and its own fields in insertion order; a field holds a primitive, an array
  or another object. A class is known by its name and by whether it extends
  \<open>QueryNode\<close> (\<open>OrderSpecification\<close> and the GraphQL types do not).
\<close>

datatype clazz =
    QueryNodeClass string
  | OtherClass string

datatype visited =
    Prim string
  | Arr "visited list"
  | Obj clazz "(string \<times> visited) list"

fun instanceof_QueryNode :: "visited \<Rightarrow> bool" where
  "instanceof_QueryNode (Obj (QueryNodeClass n) fs) = True"
| "instanceof_QueryNode v = False"

fun instanceof_RuntimeErrorQueryNode :: "visited \<Rightarrow> bool" where
  "instanceof_RuntimeErrorQueryNode (Obj c fs) = (c = QueryNodeClass ''RuntimeErrorQueryNode'')"
| "instanceof_RuntimeErrorQueryNode v = False"

fun constructor :: "visited \<Rightarrow> clazz" where
  "constructor (Obj c fs) = c"
| "constructor v = OtherClass []"

text \<open>\<open>new RuntimeErrorQueryNode(message)\<close> and the field \<open>err.message\<close>.\<close>

definition new_RuntimeErrorQueryNode :: "string \<Rightarrow> visited" where
  "new_RuntimeErrorQueryNode m =
     Obj (QueryNodeClass ''RuntimeErrorQueryNode'') [(''message'', Prim m)]"

fun message :: "visited \<Rightarrow> string" where
  "message (Obj c fs) = (case map_of fs ''message'' of Some (Prim m) \<Rightarrow> m | _ \<Rightarrow> [])"
| "message v = []"

text \<open>\<open>Array.prototype.join\<close> on strings.\<close>

fun join :: "string \<Rightarrow> string list \<Rightarrow> string" where
  "join sep [] = []"
| "join sep [x] = x"
| "join sep (x # y # ys) = x @ sep @ join sep (y # ys)"

subsection \<open>The table of output fields\<close>

text \<open>
  \<open>outputNodes.map\<close> after the six \<open>add\<close> calls at the end of the namespace, and
  \<open>outputNodes.isOutputNode\<close>.
\<close>

definition outputNodes_map :: "(clazz \<times> string list) list" where
  "outputNodes_map =
     [(QueryNodeClass ''VariableAssignmentQueryNode'', [''resultNode'']),
      (QueryNodeClass ''ObjectQueryNode'', [''properties'']),
      (QueryNodeClass ''PropertySpecification'', [''valueNode'']),
      (QueryNodeClass ''ListQueryNode'', [''itemNodes'']),
      (QueryNodeClass ''ConditionalQueryNode'', [''expr1'', ''expr2'']),
      (QueryNodeClass ''TransformListQueryNode'', [''innerNode''])]"

definition outputNodes_isOutputNode :: "clazz \<Rightarrow> string option \<Rightarrow> bool" where
  "outputNodes_isOutputNode c fieldName =
     (case map_of outputNodes_map c of
        None \<Rightarrow> False
      | Some fields \<Rightarrow> (case fieldName of None \<Rightarrow> False | Some f \<Rightarrow> f \<in> set fields))"

subsection \<open>The visitor's state and its two callbacks\<close>

record StackFrame =
  clazz :: clazz
  isOutputNode :: bool

record visitor_state =
  errorList :: "visited list"
  stack :: "StackFrame list"

datatype VisitAction = SKIP_NODE

definition enter :: "visited \<Rightarrow> string option \<Rightarrow> visitor_state \<Rightarrow> (VisitAction + visited) \<times> visitor_state" where
  "enter node key st =
     (if \<not> instanceof_QueryNode node then (Inl SKIP_NODE, st)
      else
        let st1 = (if instanceof_RuntimeErrorQueryNode node
                   then st\<lparr>errorList := errorList st @ [node]\<rparr> else st)
        in if stack st1 = []
           then (Inr node,
                 st1\<lparr>stack := stack st1 @ [\<lparr>clazz = constructor node, isOutputNode = True\<rparr>]\<rparr>)
           else
             let parentFrame = last (stack st1);
                 isOut = (isOutputNode parentFrame
                          \<and> outputNodes_isOutputNode (clazz parentFrame) key)
             in (Inr node,
                 st1\<lparr>stack := stack st1 @ [\<lparr>clazz = constructor node, isOutputNode = isOut\<rparr>]\<rparr>))"

definition leave :: "visited \<Rightarrow> string option \<Rightarrow> visitor_state \<Rightarrow> visited \<times> visitor_state" where
  "leave node key st =
     (if stack st = [] then (node, st)
      else
        let frame = last (stack st);
            st1 = st\<lparr>stack := butlast (stack st)\<rparr>
        in if isOutputNode frame \<and> errorList st1 \<noteq> []
           then
             let errors = errorList st1;
                 st2 = st1\<lparr>errorList := []\<rparr>
             in if length errors = 1 then (errors ! 0, st2)
                else (new_RuntimeErrorQueryNode (join '', '' (map message errors)), st2)
           else (node, st1))"

subsection \<open>The generic visitor\<close>

text \<open>
  Modelled from the spec: \<open>visitObject\<close> of utils/visitor is not among the sources. It is
  the single depth-first traversal the pass is described as: \<open>enter\<close> is called on a value
  with the key of the field that holds it, a skipped value is returned as it is and is not
  left, the own fields are visited in order (an array item by item under the array's key, a
  primitive not at all), and \<open>leave\<close> is called on the object rebuilt from the visited
  fields; what \<open>leave\<close> returns takes the value's place.
\<close>

fun visitObject :: "visited \<Rightarrow> string option \<Rightarrow> visitor_state \<Rightarrow> visited \<times> visitor_state"
and visitObjectOrArray :: "visited \<Rightarrow> string option \<Rightarrow> visitor_state \<Rightarrow> visited \<times> visitor_state"
and visitFields :: "(string \<times> visited) list \<Rightarrow> visitor_state \<Rightarrow> (string \<times> visited) list \<times> visitor_state"
and visitItems :: "visited list \<Rightarrow> string option \<Rightarrow> visitor_state \<Rightarrow> visited list \<times> visitor_state"
where
  "visitObject (Obj c fs) key st =
     (case enter (Obj c fs) key st of
        (Inl SKIP_NODE, st1) \<Rightarrow> (Obj c fs, st1)
      | (Inr n, st1) \<Rightarrow>
          if n \<noteq> Obj c fs then (n, st1)
          else (case visitFields fs st1 of (fs', st2) \<Rightarrow> leave (Obj c fs') key st2))"
| "visitObject (Prim p) key st =
     (case enter (Prim p) key st of
        (Inl SKIP_NODE, st1) \<Rightarrow> (Prim p, st1)
      | (Inr n, st1) \<Rightarrow> if n \<noteq> Prim p then (n, st1) else leave (Prim p) key st1)"
| "visitObject (Arr xs) key st =
     (case enter (Arr xs) key st of
        (Inl SKIP_NODE, st1) \<Rightarrow> (Arr xs, st1)
      | (Inr n, st1) \<Rightarrow> if n \<noteq> Arr xs then (n, st1) else leave (Arr xs) key st1)"
| "visitObjectOrArray (Prim p) key st = (Prim p, st)"
| "visitObjectOrArray (Arr xs) key st =
     (case visitItems xs key st of (xs', st1) \<Rightarrow> (Arr xs', st1))"
| "visitObjectOrArray (Obj c fs) key st = visitObject (Obj c fs) key st"
| "visitFields [] st = ([], st)"
| "visitFields ((field, oldValue) # fs) st =
     (case visitObjectOrArray oldValue (Some field) st of
        (newValue, st1) \<Rightarrow>
          (case visitFields fs st1 of (fs', st2) \<Rightarrow> ((field, newValue) # fs', st2)))"
| "visitItems [] key st = ([], st)"
| "visitItems (item # items) key st =
     (case visitObject item key st of
        (item', st1) \<Rightarrow>
          (case visitItems items key st1 of (items', st2) \<Rightarrow> (item' # items', st2)))"

definition moveErrorsToOutputNodes :: "visited \<Rightarrow> visited" where
  "moveErrorsToOutputNodes queryTree =
     fst (visitObject queryTree None \<lparr>errorList = [], stack = []\<rparr>)"

subsection \<open>What the traversal meets\<close>

text \<open>
  The \<open>RuntimeErrorQueryNode\<close>s of a value in the order the traversal enters them
  (depth first, fields in order; nothing below a skipped value is entered).
  \<open>errors_of\<close> follows \<open>visitObject\<close>, \<open>errors_of_value\<close> follows
  \<open>visitObjectOrArray\<close>.
\<close>

fun errors_of :: "visited \<Rightarrow> visited list"
and errors_of_value :: "visited \<Rightarrow> visited list"
and errors_of_fields :: "(string \<times> visited) list \<Rightarrow> visited list"
and errors_of_items :: "visited list \<Rightarrow> visited list"
where
  "errors_of (Obj c fs) =
     (if \<not> instanceof_QueryNode (Obj c fs) then []
      else (if instanceof_RuntimeErrorQueryNode (Obj c fs) then [Obj c fs] else [])
           @ errors_of_fields fs)"
| "errors_of (Prim p) = []"
| "errors_of (Arr xs) = []"
| "errors_of_value (Prim p) = []"
| "errors_of_value (Arr xs) = errors_of_items xs"
| "errors_of_value (Obj c fs) = errors_of (Obj c fs)"
| "errors_of_fields [] = []"
| "errors_of_fields ((field, v) # fs) = errors_of_value v @ errors_of_fields fs"
| "errors_of_items [] = []"
| "errors_of_items (item # items) = errors_of item @ errors_of_items items"

text \<open>
  The flag \<open>isOutputNode\<close> that \<open>enter\<close> gives the frame of a value it enters under
  \<open>key\<close> when the stack is \<open>stk\<close>: the root is an output position, a child is one when
  its parent is and the table lists the field.
\<close>

definition child_is_output :: "StackFrame list \<Rightarrow> string option \<Rightarrow> bool" where
  "child_is_output stk key =
     (stk = [] \<or> (isOutputNode (last stk) \<and> outputNodes_isOutputNode (clazz (last stk)) key))"

text \<open>
  The \<open>RuntimeErrorQueryNode\<close>s of a value that stand at an output position, \<open>out\<close>
  being the flag of the value itself. A tree whose errors are reachable only through
  non-output fields is one with \<open>output_errors True t = []\<close>.
\<close>

fun output_errors :: "bool \<Rightarrow> visited \<Rightarrow> visited list"
and output_errors_value :: "clazz \<Rightarrow> bool \<Rightarrow> string \<Rightarrow> visited \<Rightarrow> visited list"
and output_errors_fields :: "clazz \<Rightarrow> bool \<Rightarrow> (string \<times> visited) list \<Rightarrow> visited list"
and output_errors_items :: "bool \<Rightarrow> visited list \<Rightarrow> visited list"
where
  "output_errors out (Obj c fs) =
     (if \<not> instanceof_QueryNode (Obj c fs) then []
      else (if instanceof_RuntimeErrorQueryNode (Obj c fs) \<and> out then [Obj c fs] else [])
           @ output_errors_fields c out fs)"
| "output_errors out (Prim p) = []"
| "output_errors out (Arr xs) = []"
| "output_errors_value c out field (Prim p) = []"
| "output_errors_value c out field (Arr xs) =
     output_errors_items (out \<and> outputNodes_isOutputNode c (Some field)) xs"
| "output_errors_value c out field (Obj c' fs) =
     output_errors (out \<and> outputNodes_isOutputNode c (Some field)) (Obj c' fs)"
| "output_errors_fields c out [] = []"
| "output_errors_fields c out ((field, v) # fs) =
     output_errors_value c out field v @ output_errors_fields c out fs"
| "output_errors_items out [] = []"
| "output_errors_items out (item # items) =
     output_errors out item @ output_errors_items out items"

text \<open>Two small trees: a list transformation whose filter is an error, and one whose filter holds two.\<close>

definition filtered_list_example :: visited where
  "filtered_list_example = Obj (QueryNodeClass ''TransformListQueryNode'')
     [(''listNode'', Obj (QueryNodeClass ''EntitiesQueryNode'') []),
      (''innerNode'', Obj (QueryNodeClass ''VariableQueryNode'') [(''label'', Prim ''item'')]),
      (''filterNode'', new_RuntimeErrorQueryNode ''denied''),
      (''orderBy'', Obj (OtherClass ''OrderSpecification'') [(''clauses'', Arr [])]),
      (''maxCount'', Prim ''undefined'')]"



section \<open>Query nodes (query/definition)\<close>

subsection \<open>Runtime values\<close>

text \<open>
  The values that literals carry and that the generated JavaScript computes: the JSON
  values and \<open>undefined\<close>. A number is modelled by an integer (the integral values
  among JavaScript's numbers); an object is its own properties in insertion order.
\<close>

datatype jsval =
    JUndefined
  | JNull
  | JBool bool
  | JNum int
  | JStr string
  | JList "jsval list"
  | JObj "(string \<times> jsval) list"

subsection \<open>Schema types and relations\<close>

text \<open>
  Of a GraphQL field only the name is read, of an object type the name and the field map
  (\<open>getFields()\<close>).
\<close>

datatype GraphQLField = GraphQLField (field_name: string)

datatype GraphQLObjectType =
  GraphQLObjectType (type_name: string) (getFields: "(string \<times> GraphQLField) list")

datatype RelationFieldEdgeSide = FROM_SIDE | TO_SIDE

text \<open>
  Modelled from the spec: the class \<open>EdgeType\<close> and \<open>invertRelationFieldEdgeSide\<close>
  (schema/edges) are not among the sources. A relation has a type and a field on its from
  side, a type and possibly an inverse field on its to side; \<open>getTypeOfSide\<close> and
  \<open>getFieldOfSide\<close> read them, and inverting a side gives the opposite one.
\<close>

record EdgeType =
  fromType :: GraphQLObjectType
  fromField :: GraphQLField
  toType :: GraphQLObjectType
  toField :: "GraphQLField option"

definition getTypeOfSide :: "EdgeType \<Rightarrow> RelationFieldEdgeSide \<Rightarrow> GraphQLObjectType" where
  "getTypeOfSide edgeType side =
     (case side of FROM_SIDE \<Rightarrow> fromType edgeType | TO_SIDE \<Rightarrow> toType edgeType)"

definition getFieldOfSide :: "EdgeType \<Rightarrow> RelationFieldEdgeSide \<Rightarrow> GraphQLField option" where
  "getFieldOfSide edgeType side =
     (case side of FROM_SIDE \<Rightarrow> Some (fromField edgeType) | TO_SIDE \<Rightarrow> toField edgeType)"

definition invertRelationFieldEdgeSide :: "RelationFieldEdgeSide \<Rightarrow> RelationFieldEdgeSide" where
  "invertRelationFieldEdgeSide side = (case side of FROM_SIDE \<Rightarrow> TO_SIDE | TO_SIDE \<Rightarrow> FROM_SIDE)"

subsection \<open>Operators and kinds\<close>

text \<open>
  \<open>BinaryOperator\<close> with every member the generator's \<open>switch\<close> statements name,
  \<open>BasicType\<close> and \<open>OrderDirection\<close>.
\<close>

datatype BinaryOperator =
    AND | OR | EQUAL | UNEQUAL
  | LESS_THAN | LESS_THAN_OR_EQUAL | GREATER_THAN | GREATER_THAN_OR_EQUAL
  | IN | CONTAINS | STARTS_WITH | ENDS_WITH
  | ADD | SUBTRACT | MULTIPLY | DIVIDE | MODULO | APPEND | PREPEND

datatype BasicType = OBJECT | LIST | SCALAR | NULL

datatype OrderDirection = ASCENDING | DESCENDING

subsection \<open>The nodes\<close>

text \<open>
  A \<open>VariableQueryNode\<close> is a key by identity (the generator's variable map is a
  \<open>Map\<close> over the node objects), so a variable is its identity together with its label.
  \<open>ErrorIfNotTruthyResultValidator\<close> carries the message and the name of the error it
  raises.
\<close>

datatype VariableNode = VariableNode (ident: nat) (label: string)

datatype QueryResultValidator = ErrorIfNotTruthyResultValidator string string

text \<open>
  The node classes that the transformers below build and that the generator's processors
  for them reach, each with its fields in the order of the comments. A
  \<open>PropertySpecification\<close> is the pair of its \<open>propertyName\<close> and \<open>valueNode\<close>, an
  \<open>OrderSpecification\<close> the list of its clauses.

  \<^item> \<open>VariableAssignmentQueryNode\<close>: variableNode, variableValueNode, resultNode
  \<^item> \<open>WithPreExecutionQueryNode\<close>: preExecQueries, resultNode
  \<^item> \<open>FieldQueryNode\<close>: objectNode, field, objectType
  \<^item> \<open>TransformListQueryNode\<close>: listNode, itemVariable, filterNode, orderBy, maxCount,
    innerNode
  \<^item> \<open>BinaryOperationQueryNode\<close>: lhs, operator, rhs
  \<^item> \<open>ConditionalQueryNode\<close>: condition, expr1, expr2
  \<^item> \<open>FollowEdgeQueryNode\<close>: edgeType, sourceEntityNode, sourceFieldSide
  \<^item> \<open>UpdateEntitiesQueryNode\<close>: objectType, listNode, currentEntityVariable, updates
  \<^item> \<open>PreExecQueryParms\<close>: query, resultVariable, resultValidator
  \<^item> \<open>OrderClause\<close>: valueNode, direction
\<close>

datatype QueryNode =
    LiteralQueryNode jsval
  | NullQueryNode
  | RuntimeErrorQueryNode string
  | ConstBoolQueryNode bool
  | ConstIntQueryNode int
  | ObjectQueryNode "(string \<times> QueryNode) list"
  | ListQueryNode "QueryNode list"
  | VariableQueryNode VariableNode
  | VariableAssignmentQueryNode VariableNode QueryNode QueryNode
  | WithPreExecutionQueryNode "PreExecQueryParms list" QueryNode
  | FieldQueryNode QueryNode GraphQLField GraphQLObjectType
  | RootEntityIDQueryNode QueryNode
  | TransformListQueryNode QueryNode VariableNode QueryNode "OrderClause list" "int option" QueryNode
  | BinaryOperationQueryNode QueryNode BinaryOperator QueryNode
  | ConditionalQueryNode QueryNode QueryNode QueryNode
  | TypeCheckQueryNode QueryNode BasicType
  | EntitiesQueryNode GraphQLObjectType
  | FollowEdgeQueryNode EdgeType QueryNode RelationFieldEdgeSide
  | CreateEntityQueryNode GraphQLObjectType QueryNode
  | UpdateEntitiesQueryNode GraphQLObjectType QueryNode VariableNode "(string \<times> QueryNode) list"
and PreExecQueryParms =
    PreExecQueryParms QueryNode "VariableNode option" "QueryResultValidator option"
and OrderClause =
    OrderClause QueryNode OrderDirection

text \<open>
  Modelled from the spec: the constructor of \<open>TransformListQueryNode\<close> with an item
  variable is not among the sources (the definition there predates item variables). Its
  defaults are the spec's: the filter is always true, the list is unordered, there is no
  cap, and the result is the bound item itself.
\<close>

record TransformListParams =
  p_listNode :: QueryNode
  p_itemVariable :: VariableNode
  p_innerNode :: "QueryNode option"
  p_filterNode :: "QueryNode option"
  p_orderBy :: "OrderClause list option"
  p_maxCount :: "int option"

definition new_TransformListQueryNode :: "TransformListParams \<Rightarrow> QueryNode" where
  "new_TransformListQueryNode params =
     TransformListQueryNode
       (p_listNode params)
       (p_itemVariable params)
       (case p_filterNode params of Some f \<Rightarrow> f | None \<Rightarrow> ConstBoolQueryNode True)
       (case p_orderBy params of Some ob \<Rightarrow> ob | None \<Rightarrow> [])
       (p_maxCount params)
       (case p_innerNode params of Some n \<Rightarrow> n | None \<Rightarrow> VariableQueryNode (p_itemVariable params))"


section \<open>The authorization transformers (authorization/transformers)\<close>

text \<open>
  The permission descriptors (authorization/permission-descriptors) are not among the
  sources. A descriptor is taken as it is used: the three functions the transformers call
  on it; \<open>getPermissionDescriptor\<close>, which finds the descriptor of a type or of a field of
  a type, is a parameter of each transformer.
\<close>

datatype AccessOperation = READ | WRITE

datatype PermissionResult = GRANTED | DENIED | CONDITIONAL

datatype ConditionExplanationContext = BEFORE_WRITE | SET

record AuthContext =
  authRoles :: "string list"

record PermissionDescriptor =
  canAccess :: "AuthContext \<Rightarrow> AccessOperation \<Rightarrow> PermissionResult"
  getAccessCondition :: "AuthContext \<Rightarrow> AccessOperation \<Rightarrow> QueryNode \<Rightarrow> QueryNode"
  getExplanationForCondition ::
    "AuthContext \<Rightarrow> AccessOperation \<Rightarrow> ConditionExplanationContext \<Rightarrow> string"

text \<open>The three errors that \<open>transformFollowEdgeQueryNode\<close> throws, with the names they print.\<close>

datatype transform_error =
    NonExistingInverseField string
  | AccessGroupNotSupportedOnFields string string
  | NoAccessGroupField string

text \<open>
  \<open>transformFollowEdgeQueryNode\<close> (follow-edge.ts). \<open>fresh\<close> is the identity of the
  node that \<open>new VariableQueryNode('item')\<close> creates.
\<close>

fun transformFollowEdgeQueryNode ::
  "(GraphQLObjectType \<Rightarrow> GraphQLField option \<Rightarrow> PermissionDescriptor) \<Rightarrow> nat \<Rightarrow>
   QueryNode \<Rightarrow> AuthContext \<Rightarrow> transform_error + QueryNode" where
  "transformFollowEdgeQueryNode getPermissionDescriptor fresh
      (FollowEdgeQueryNode edgeType sourceEntityNode sourceFieldSide) authContext =
     (let node = FollowEdgeQueryNode edgeType sourceEntityNode sourceFieldSide;
          sourceType = getTypeOfSide edgeType sourceFieldSide
      in case getFieldOfSide edgeType sourceFieldSide of
           None \<Rightarrow> Inl (NonExistingInverseField (type_name sourceType))
         | Some sourceField \<Rightarrow>
             let fieldPermissionDescriptor = getPermissionDescriptor sourceType (Some sourceField);
                 access = canAccess fieldPermissionDescriptor authContext READ
             in case access of
                  DENIED \<Rightarrow> Inr (RuntimeErrorQueryNode
                       (''Not authorized to read '' @ type_name sourceType @ ''.''
                        @ field_name sourceField))
                | CONDITIONAL \<Rightarrow> Inl (AccessGroupNotSupportedOnFields (type_name sourceType)
                            (field_name sourceField))
                | GRANTED \<Rightarrow>
                  let targetType = getTypeOfSide edgeType
                                     (invertRelationFieldEdgeSide sourceFieldSide);
                      entityPermissionDescriptor = getPermissionDescriptor targetType None;
                      entityAccess = canAccess entityPermissionDescriptor authContext READ
                  in case entityAccess of
                       GRANTED \<Rightarrow> Inr node
                     | DENIED \<Rightarrow> Inr (RuntimeErrorQueryNode
                         (''Not authorized to read '' @ type_name targetType
                          @ '' objects by following '' @ type_name sourceType @ ''.''
                          @ field_name sourceField))
                     | CONDITIONAL \<Rightarrow>
                         (case map_of (getFields targetType) ''accessGroup'' of
                            None \<Rightarrow> Inl (NoAccessGroupField (type_name targetType))
                          | Some accessGroupField \<Rightarrow>
                              let itemVar = VariableNode fresh ''item'';
                                  accessGroupNode = FieldQueryNode (VariableQueryNode itemVar)
                                                      accessGroupField targetType;
                                  condition = getAccessCondition entityPermissionDescriptor
                                                authContext READ accessGroupNode
                              in Inr (new_TransformListQueryNode
                                   \<lparr>p_listNode = node, p_itemVariable = itemVar,
                                    p_innerNode = None, p_filterNode = Some condition,
                                    p_orderBy = None, p_maxCount = None\<rparr>)))"

text \<open>
  Modelled from the spec: the constant \<open>AUTHORIZATION_ERROR_NAME\<close>
  (authorization/auth-basics) is not among the sources. It is the fixed name under which an
  authorization failure surfaces; no property below depends on its value.
\<close>

definition AUTHORIZATION_ERROR_NAME :: string where
  "AUTHORIZATION_ERROR_NAME = ''AuthorizationError''"

text \<open>\<open>transformCreateEntityQueryNode\<close>.\<close>

fun transformCreateEntityQueryNode ::
  "(GraphQLObjectType \<Rightarrow> GraphQLField option \<Rightarrow> PermissionDescriptor) \<Rightarrow>
   QueryNode \<Rightarrow> AuthContext \<Rightarrow> QueryNode" where
  "transformCreateEntityQueryNode getPermissionDescriptor
      (CreateEntityQueryNode objectType objectNode) authContext =
     (let node = CreateEntityQueryNode objectType objectNode;
          permissionDescriptor = getPermissionDescriptor objectType None;
          access = canAccess permissionDescriptor authContext WRITE
      in case access of
           GRANTED \<Rightarrow> node
         | DENIED \<Rightarrow> RuntimeErrorQueryNode
             (AUTHORIZATION_ERROR_NAME @ '': Not authorized to create ''
              @ type_name objectType @ '' objects'')
         | CONDITIONAL \<Rightarrow>
             let condition = getAccessCondition permissionDescriptor authContext WRITE objectNode;
                 explanation = getExplanationForCondition permissionDescriptor authContext WRITE SET
             in WithPreExecutionQueryNode
                  [PreExecQueryParms condition None
                     (Some (ErrorIfNotTruthyResultValidator
                        (''Not authorized to '' @ explanation) AUTHORIZATION_ERROR_NAME))]
                  node)"


section \<open>The in-memory code generator (database/inmemory/js-generator.ts)\<close>

subsection \<open>Fragments of generated code\<close>

text \<open>
  Modelled from the spec: the module \<open>./js\<close> (the tag \<open>js\<close> of the template literals
  and its helpers) is not among the sources. A fragment is kept as the generator builds it:
  a template literal is the composite of its code pieces and interpolated values in order,
  where an interpolated fragment stands for itself and any other interpolated value is a
  bound value; \<open>js.lines\<close>, \<open>js.indent\<close>, \<open>js.join\<close>, \<open>js.identifier\<close>,
  \<open>js.string\<close>, \<open>js.integer\<close> and \<open>js.collection\<close> are constructors of their own
  (\<open>js.collection\<close> together with the name lookup of the collection of a root entity
  type or of an edge type, inmemory-basics, which is not among the sources either). A
  JavaScript variable is its label and whether it is a \<open>JSQueryResultVariable\<close>.
\<close>
datatype JSVariable = JSVariable string | JSQueryResultVariable string

datatype JSFragment =
    JSCodeFragment string
  | JSVariableFragment JSVariable
  | JSBoundValue jsval
  | JSCompositeFragment "JSFragment list"
  | JSLines "JSFragment list"
  | JSIndent JSFragment
  | JSJoin "JSFragment list" JSFragment
  | JSIdentifier string
  | JSString string
  | JSInteger int
  | JSCollectionForRootEntity GraphQLObjectType
  | JSCollectionForEdge EdgeType

datatype JSCompoundQuery =
  JSCompoundQuery "JSCompoundQuery list" JSFragment "JSVariable option"
    "QueryResultValidator option"

abbreviation js :: "JSFragment list \<Rightarrow> JSFragment" where
  "js \<equiv> JSCompositeFragment"

abbreviation code :: "string \<Rightarrow> JSFragment" where
  "code \<equiv> JSCodeFragment"

definition js_variable :: "string \<Rightarrow> JSFragment" where
  "js_variable name = JSVariableFragment (JSVariable name)"

text \<open>The errors the generator throws.\<close>

datatype generator_error =
    IntroducedTwice VariableNode
  | UsedButNotIntroduced VariableNode
  | UnsupportedBinaryOperator BinaryOperator

definition ID_FIELD_NAME :: string where
  "ID_FIELD_NAME = ''id''"

text \<open>
  Modelled from the spec: \<open>RUNTIME_ERROR_TOKEN\<close> (query/runtime-errors),
  \<open>js.isSafeIdentifier\<close> (./js) and \<open>decapitalize\<close> (utils) are not among the sources.
  The token is a fixed property name; a safe bare identifier is a non-empty word of
  letters, digits and underscores; \<open>decapitalize\<close> lowers a leading capital. No property
  below depends on them.
\<close>
definition RUNTIME_ERROR_TOKEN :: string where
  "RUNTIME_ERROR_TOKEN = ''__cruddl_runtime_error''"

definition isSafeIdentifier :: "string \<Rightarrow> bool" where
  "isSafeIdentifier str =
     (str \<noteq> [] \<and>
      (\<forall>c \<in> set str. c \<in> set (''abcdefghijklmnopqrstuvwxyzABCDEFGHIJKLMNOPQRSTUVWXYZ0123456789_'')))"

definition decapitalize :: "string \<Rightarrow> string" where
  "decapitalize s =
     (case s of [] \<Rightarrow> []
      | c # cs \<Rightarrow>
          (if 65 \<le> (of_char c :: nat) \<and> (of_char c :: nat) \<le> 90
           then char_of ((of_char c :: nat) + 32) else c) # cs)"

subsection \<open>The scoping context\<close>

text \<open>
  \<open>QueryContext\<close>. The variable map keeps its entries in insertion order. The array
  \<open>preExecQueries\<close> is not a field of the record: a context shares it by reference with
  every context nested in it by \<open>newNestedContextWithNewVariable\<close>, while the root
  context and each context made by \<open>newPreExecContext\<close> start with an empty array of
  their own. So the array is threaded instead: whatever can push to it takes the array and
  returns it (\<open>'a generating\<close> below), and a compilation in a fresh context starts from
  \<open>[]\<close>.
\<close>
record QueryContext =
  variableMap :: "(VariableNode \<times> JSVariable) list"

definition new_QueryContext :: QueryContext where
  "new_QueryContext = \<lparr>variableMap = []\<rparr>"

fun instanceof_JSQueryResultVariable :: "JSVariable \<Rightarrow> bool" where
  "instanceof_JSQueryResultVariable (JSQueryResultVariable l) = True"
| "instanceof_JSQueryResultVariable (JSVariable l) = False"

definition newPreExecContext :: "QueryContext \<Rightarrow> QueryContext" where
  "newPreExecContext this =
     \<lparr>variableMap =
        filter (\<lambda>(varNode, jsVar). instanceof_JSQueryResultVariable jsVar) (variableMap this)\<rparr>"

definition newNestedContextWithNewVariable ::
  "QueryContext \<Rightarrow> VariableNode \<Rightarrow> JSVariable \<Rightarrow> generator_error + QueryContext" where
  "newNestedContextWithNewVariable this variableNode jsVariable =
     (if variableNode \<in> fst ` set (variableMap this) then Inl (IntroducedTwice variableNode)
      else Inr \<lparr>variableMap = variableMap this @ [(variableNode, jsVariable)]\<rparr>)"

definition introduceVariable :: "QueryContext \<Rightarrow> VariableNode \<Rightarrow> generator_error + QueryContext" where
  "introduceVariable this variableNode =
     newNestedContextWithNewVariable this variableNode (JSVariable (label variableNode))"

definition getVariable :: "QueryContext \<Rightarrow> VariableNode \<Rightarrow> generator_error + JSFragment" where
  "getVariable this variableNode =
     (case map_of (variableMap this) variableNode of
        None \<Rightarrow> Inl (UsedButNotIntroduced variableNode)
      | Some variable \<Rightarrow> Inr (JSCompositeFragment [JSVariableFragment variable]))"

subsection \<open>The code of each processor\<close>

text \<open>The helpers of the namespace \<open>jsExt\<close>.\<close>
definition safeJSONKey :: "string \<Rightarrow> JSFragment" where
  "safeJSONKey key =
     (if isSafeIdentifier key then JSCompositeFragment [JSString key]
      else JSCompositeFragment [JSBoundValue (JStr key)])"

definition executingFunction :: "JSFragment list \<Rightarrow> JSFragment" where
  "executingFunction content =
     JSLines [JSCompositeFragment [JSCodeFragment ''(function() {''],
              JSIndent (JSLines content),
              JSCompositeFragment [JSCodeFragment ''})()'']]"

definition lambda :: "JSFragment \<Rightarrow> JSFragment \<Rightarrow> JSFragment" where
  "lambda variable expression =
     JSCompositeFragment [variable, JSCodeFragment '' => ('', expression, JSCodeFragment '')'']"

definition evaluatingLambda :: "JSFragment \<Rightarrow> JSFragment \<Rightarrow> JSFragment \<Rightarrow> JSFragment" where
  "evaluatingLambda variable expression value =
     JSCompositeFragment [JSCodeFragment ''('', lambda variable expression, JSCodeFragment '')('',
                          value, JSCodeFragment '')'']"

fun getJSOperator :: "BinaryOperator \<Rightarrow> JSFragment option" where
  "getJSOperator AND = Some (JSCompositeFragment [JSCodeFragment ''&&''])"
| "getJSOperator OR = Some (JSCompositeFragment [JSCodeFragment ''||''])"
| "getJSOperator EQUAL = Some (JSCompositeFragment [JSCodeFragment ''===''])"
| "getJSOperator UNEQUAL = Some (JSCompositeFragment [JSCodeFragment ''!==''])"
| "getJSOperator ADD = Some (JSCompositeFragment [JSCodeFragment ''+''])"
| "getJSOperator SUBTRACT = Some (JSCompositeFragment [JSCodeFragment ''-''])"
| "getJSOperator MULTIPLY = Some (JSCompositeFragment [JSCodeFragment ''*''])"
| "getJSOperator DIVIDE = Some (JSCompositeFragment [JSCodeFragment ''/''])"
| "getJSOperator MODULO = Some (JSCompositeFragment [JSCodeFragment ''%''])"
| "getJSOperator op = None"

text \<open>
  What each processor of the table \<open>processors\<close> builds once its child nodes are
  processed; the arguments named \<open>...Code\<close>, \<open>object\<close>, \<open>lhs\<close>, \<open>rhs\<close> are the
  fragments of the children. In \<open>Field_code\<close> the first assignment to \<open>raw\<close> is
  overwritten by the second, as in the source.
\<close>
definition Object_code :: "(string \<times> JSFragment) list \<Rightarrow> JSFragment" where
  "Object_code properties =
     (if properties = [] then js [code ''{}'']
      else JSLines [js [code ''{''],
                    JSIndent (JSJoin (map (\<lambda>(propertyName, valueCode).
                                js [safeJSONKey propertyName, code '': '', valueCode]) properties)
                              (js [code [CHR '','', CHR 0x0A]])),
                    js [code ''}'']])"

definition List_code :: "JSFragment list \<Rightarrow> JSFragment" where
  "List_code itemNodes =
     (if itemNodes = [] then js [code ''[]'']
      else JSLines [js [code ''[''],
                    JSIndent (JSJoin itemNodes (js [code [CHR '','', CHR 0x0A]])),
                    js [code '']'']])"

definition Field_code :: "GraphQLField \<Rightarrow> JSFragment \<Rightarrow> JSFragment" where
  "Field_code field object =
     (let objectVar = js_variable ''object'';
          identifier = field_name field;
          raw0 = (if isSafeIdentifier identifier
                  then Some (js [objectVar, code ''.'', JSIdentifier identifier]) else None);
          raw = js [objectVar, code ''['', JSBoundValue (JStr identifier), code '']'']
      in evaluatingLambda objectVar
           (js [code ''((typeof ('', objectVar, code '') == 'object' && ('', objectVar,
                code '') != null) ? ('', raw, code '') : null)''])
           object)"

definition RootEntityID_code :: "JSFragment \<Rightarrow> JSFragment" where
  "RootEntityID_code object = js [object, code ''.'', JSIdentifier ID_FIELD_NAME]"

definition BinaryOperation_code ::
  "BinaryOperator \<Rightarrow> JSFragment \<Rightarrow> JSFragment \<Rightarrow> generator_error + JSFragment" where
  "BinaryOperation_code operator lhs rhs =
     (let lhsVar = js_variable ''lhs'';
          rhsVar = js_variable ''rhs'';
          lhsListOrString = evaluatingLambda lhsVar
             (js [code ''(Array.isArray('', lhsVar, code '') ? '', lhsVar, code '' : String('',
                  lhsVar, code ''))'']) lhs;
          rhsListOrString = evaluatingLambda rhsVar
             (js [code ''(Array.isArray('', rhsVar, code '') ? '', rhsVar, code '' : String('',
                  rhsVar, code ''))'']) rhs;
          compare = (\<lambda>comp. JSLines [js [code ''support.compare(''],
                                      JSIndent (JSLines [js [lhs, code '',''], js [rhs]]),
                                      js [code '') '', comp, code '' 0'']])
      in case getJSOperator operator of
           Some op \<Rightarrow> Inr (js [code ''('', lhs, code '' '', op, code '' '', rhs, code '')''])
         | None \<Rightarrow>
             (case operator of
                LESS_THAN \<Rightarrow> Inr (compare (js [code ''<'']))
              | LESS_THAN_OR_EQUAL \<Rightarrow> Inr (compare (js [code ''<='']))
              | GREATER_THAN \<Rightarrow> Inr (compare (js [code ''>'']))
              | GREATER_THAN_OR_EQUAL \<Rightarrow> Inr (compare (js [code ''>='']))
              | CONTAINS \<Rightarrow>
                  Inr (js [lhsListOrString, code ''.includes('', rhsListOrString, code '')''])
              | IN \<Rightarrow>
                  Inr (js [rhsListOrString, code ''.includes('', lhsListOrString, code '')''])
              | STARTS_WITH \<Rightarrow>
                  Inr (js [code ''String('', lhs, code '').startsWith('', rhs, code '')''])
              | ENDS_WITH \<Rightarrow>
                  Inr (js [code ''String('', lhs, code '').endsWith('', rhs, code '')''])
              | APPEND \<Rightarrow>
                  Inr (js [code ''String('', lhs, code '') + String('', rhs, code '')''])
              | PREPEND \<Rightarrow>
                  Inr (js [code ''String('', rhs, code '') + String('', lhs, code '')''])
              | _ \<Rightarrow> Inl (UnsupportedBinaryOperator operator)))"

definition TypeCheck_code :: "BasicType \<Rightarrow> JSFragment \<Rightarrow> JSFragment" where
  "TypeCheck_code type valueCode =
     (let value = js [code ''('', valueCode, code '')''];
          valueVar = js_variable ''value''
      in case type of
           SCALAR \<Rightarrow> evaluatingLambda valueVar
             (js [code ''(typeof '', valueVar, code '' == 'boolean' || typeof '', valueVar,
                  code '' == 'number || typeof '', valueVar, code '' == 'string')'']) value
         | LIST \<Rightarrow> js [code ''Array.isArray('', value, code '')'']
         | OBJECT \<Rightarrow> evaluatingLambda valueVar
             (js [code ''typeof '', valueVar, code '' == 'object' && '', valueVar,
                  code '' != null && !Array.isArray('', valueVar, code '')'']) value
         | NULL \<Rightarrow> js [value, code '' == null''])"

definition getClauseFnAndInvert :: "JSFragment \<Rightarrow> JSFragment \<Rightarrow> OrderDirection \<Rightarrow> JSFragment" where
  "getClauseFnAndInvert itemVar valueCode dir =
     (let valueLambda = lambda itemVar valueCode
      in js [code ''['', valueLambda, code '', '',
             (if dir = DESCENDING then js [code ''true''] else js [code ''false'']), code '']''])"

definition getComparatorForOrderSpecification_code :: "JSFragment list \<Rightarrow> JSFragment" where
  "getComparatorForOrderSpecification_code args =
     js [code ''support.getMultiComparator('', JSJoin args (js [code '', '']), code '')'']"

definition TransformList_code ::
  "JSFragment \<Rightarrow> JSFragment \<Rightarrow> JSFragment option \<Rightarrow> JSFragment option \<Rightarrow> int option \<Rightarrow>
   JSFragment option \<Rightarrow> JSFragment" where
  "TransformList_code itemVar list filterCode comparator maxCount innerCode =
     JSLines [list,
       JSIndent (JSLines
         [(case filterCode of
             Some f \<Rightarrow> js [code ''.filter('', lambda itemVar f, code '')''] | None \<Rightarrow> js [code '''']),
          (case comparator of
             Some c \<Rightarrow> js [code ''.slice().sort('', c, code '')''] | None \<Rightarrow> js [code '''']),
          (case maxCount of
             Some n \<Rightarrow> js [code ''.slice(0, '', JSBoundValue (JNum n), code '')'']
           | None \<Rightarrow> js [code '''']),
          (case innerCode of
             Some i \<Rightarrow> js [code ''.map('', lambda itemVar i, code '')''] | None \<Rightarrow> js [code ''''])])]"


definition CreateEntity_code :: "GraphQLObjectType \<Rightarrow> JSFragment \<Rightarrow> JSFragment" where
  "CreateEntity_code objectType objectCode =
     (let objVar = js_variable ''obj'';
          idVar = js_variable ''id''
      in executingFunction
           [js [code ''const '', objVar, code '' = '', objectCode, code '';''],
            js [code ''const '', idVar, code '' = db.generateID();''],
            js [objVar, code ''.'', JSIdentifier ID_FIELD_NAME, code '' = '', idVar, code '';''],
            js [JSCollectionForRootEntity objectType, code ''.push('', objVar, code '');''],
            js [code ''return '', idVar, code '';'']])"

definition UpdateEntities_code :: "JSFragment \<Rightarrow> JSFragment \<Rightarrow> JSFragment \<Rightarrow> JSFragment" where
  "UpdateEntities_code entityVar updatesCode listCode =
     (let updateFunction = executingFunction
            [js [code ''Object.assign('', entityVar, code '', '', updatesCode, code '');''],
             js [code ''return '', entityVar, code ''.'', JSIdentifier ID_FIELD_NAME, code '';'']]
      in JSLines [js [listCode],
                  JSIndent (JSLines [js [code ''.map('', lambda entityVar updateFunction,
                                         code '')'']])])"

definition FollowEdge_code ::
  "EdgeType \<Rightarrow> RelationFieldEdgeSide \<Rightarrow> JSFragment \<Rightarrow> JSFragment" where
  "FollowEdge_code edgeType sourceFieldSide sourceID =
     (let targetType = getTypeOfSide edgeType (invertRelationFieldEdgeSide sourceFieldSide);
          targetColl = JSCollectionForRootEntity targetType;
          edgeColl = JSCollectionForEdge edgeType;
          edgeVar = js_variable ''edge'';
          itemVar = js_variable (decapitalize (type_name targetType));
          sourceIDOnEdge = (if sourceFieldSide = FROM_SIDE then js [edgeVar, code ''._from'']
                            else js [edgeVar, code ''._to'']);
          targetIDOnEdge = (if sourceFieldSide = FROM_SIDE then js [edgeVar, code ''._to'']
                            else js [edgeVar, code ''._from'']);
          idOnItem = js [itemVar, code ''.'', JSIdentifier ID_FIELD_NAME];
          idOnItemEqualsTargetIDOnEdge = js [idOnItem, code '' === '', targetIDOnEdge]
      in JSLines [js [edgeColl],
           JSIndent (JSLines
             [js [code ''.filter('',
                  lambda edgeVar (js [sourceIDOnEdge, code '' == '', sourceID]), code '')''],
              js [code ''.map('',
                  lambda edgeVar (js [targetColl, code ''.find('',
                     lambda itemVar idOnItemEqualsTargetIDOnEdge, code '')'']), code '')''],
              js [code ''.filter('', lambda itemVar itemVar, code '')'']])])"

subsection \<open>processNode\<close>

text \<open>
  \<open>processNode\<close> with the processors' recursion, in the order in which the source
  evaluates the calls (the comparator of a list transformation and the update object of
  \<open>UpdateEntities\<close> before the list). A thrown error ends the compilation. Two
  processors call \<open>processNode\<close> on a node they build themselves:
  \<open>UpdateEntities\<close> on \<open>new ObjectQueryNode(node.updates)\<close> and \<open>FollowEdge\<close> on
  \<open>new RootEntityIDQueryNode(node.sourceEntityNode)\<close>; here they run the
  \<open>Object\<close> and the \<open>RootEntityID\<close> processor on those fields directly.
  \<open>addPreExecuteQuery\<close> contains the call of \<open>createJSCompoundQuery\<close>, which is
  defined after it with the same body; \<open>addPreExecuteQueries\<close> is the loop of the
  \<open>WithPreExecution\<close> processor.
\<close>
type_synonym 'a generating = "JSCompoundQuery list \<Rightarrow> generator_error + ('a \<times> JSCompoundQuery list)"

primrec processNode :: "QueryNode \<Rightarrow> QueryContext \<Rightarrow> JSFragment generating"
and processNodes :: "QueryNode list \<Rightarrow> QueryContext \<Rightarrow> JSFragment list generating"
and processProperty ::
  "string \<times> QueryNode \<Rightarrow> QueryContext \<Rightarrow> (string \<times> JSFragment) generating"
and processProperties ::
  "(string \<times> QueryNode) list \<Rightarrow> QueryContext \<Rightarrow> (string \<times> JSFragment) list generating"
and processClause :: "OrderClause \<Rightarrow> JSFragment \<Rightarrow> QueryContext \<Rightarrow> JSFragment generating"
and processClauses ::
  "OrderClause list \<Rightarrow> JSFragment \<Rightarrow> QueryContext \<Rightarrow> JSFragment list generating"
and addPreExecuteQuery :: "PreExecQueryParms \<Rightarrow> QueryContext \<Rightarrow> QueryContext generating"
and addPreExecuteQueries :: "PreExecQueryParms list \<Rightarrow> QueryContext \<Rightarrow> QueryContext generating"
where
  "processNode (LiteralQueryNode v) context pre = Inr (js [JSBoundValue v], pre)"
| "processNode NullQueryNode context pre = Inr (js [code ''null''], pre)"
| "processNode (RuntimeErrorQueryNode msg) context pre =
     Inr (js [code ''{'', code RUNTIME_ERROR_TOKEN, code '': '', JSBoundValue (JStr msg),
              code ''}''], pre)"
| "processNode (ConstBoolQueryNode b) context pre =
     Inr (if b then js [code ''true''] else js [code ''false''], pre)"
| "processNode (ConstIntQueryNode i) context pre = Inr (JSInteger i, pre)"
| "processNode (ObjectQueryNode properties) context pre =
     (if properties = [] then Inr (Object_code [], pre)
      else case processProperties properties context pre of
             Inl e \<Rightarrow> Inl e
           | Inr (ps, pre1) \<Rightarrow> Inr (Object_code ps, pre1))"
| "processNode (ListQueryNode itemNodes) context pre =
     (if itemNodes = [] then Inr (List_code [], pre)
      else case processNodes itemNodes context pre of
             Inl e \<Rightarrow> Inl e
           | Inr (items, pre1) \<Rightarrow> Inr (List_code items, pre1))"
| "processNode (VariableQueryNode v) context pre =
     (case getVariable context v of Inl e \<Rightarrow> Inl e | Inr f \<Rightarrow> Inr (f, pre))"
| "processNode (VariableAssignmentQueryNode variableNode variableValueNode resultNode) context pre =
     (case introduceVariable context variableNode of
        Inl e \<Rightarrow> Inl e
      | Inr newContext \<Rightarrow>
          (case getVariable newContext variableNode of
             Inl e \<Rightarrow> Inl e
           | Inr tmpVar \<Rightarrow>
               (case processNode variableValueNode newContext pre of
                  Inl e \<Rightarrow> Inl e
                | Inr (valueCode, pre1) \<Rightarrow>
                    (case processNode resultNode newContext pre1 of
                       Inl e \<Rightarrow> Inl e
                     | Inr (resultCode, pre2) \<Rightarrow>
                         Inr (executingFunction
                                [js [code ''const '', tmpVar, code '' = '', valueCode, code '';''],
                                 js [code ''return '', resultCode]], pre2)))))"
| "processNode (WithPreExecutionQueryNode preExecQueries resultNode) context pre =
     (case addPreExecuteQueries preExecQueries context pre of
        Inl e \<Rightarrow> Inl e
      | Inr (currentContext, pre1) \<Rightarrow>
          (case processNode resultNode currentContext pre1 of
             Inl e \<Rightarrow> Inl e
           | Inr (resultCode, pre2) \<Rightarrow> Inr (js [resultCode], pre2)))"
| "processNode (FieldQueryNode objectNode field objectType) context pre =
     (case processNode objectNode context pre of
        Inl e \<Rightarrow> Inl e
      | Inr (object, pre1) \<Rightarrow> Inr (Field_code field object, pre1))"
| "processNode (RootEntityIDQueryNode objectNode) context pre =
     (case processNode objectNode context pre of
        Inl e \<Rightarrow> Inl e
      | Inr (object, pre1) \<Rightarrow> Inr (RootEntityID_code object, pre1))"
| "processNode (TransformListQueryNode listNode itemVariable filterNode orderBy maxCount innerNode)
      context pre =
     (case introduceVariable context itemVariable of
        Inl e \<Rightarrow> Inl e
      | Inr itemContext \<Rightarrow>
          (case getVariable itemContext itemVariable of
             Inl e \<Rightarrow> Inl e
           | Inr itemVar \<Rightarrow>
               (case (if orderBy = [] then Inr (None, pre)
                      else case processClauses orderBy itemVar itemContext pre of
                             Inl e \<Rightarrow> Inl e
                           | Inr (args, pre1) \<Rightarrow>
                               Inr (Some (getComparatorForOrderSpecification_code args), pre1)) of
                  Inl e \<Rightarrow> Inl e
                | Inr (comparator, pre1) \<Rightarrow>
                    let isFiltered = (filterNode \<noteq> ConstBoolQueryNode True);
                        isMapped = (innerNode \<noteq> VariableQueryNode itemVariable)
                    in (case processNode listNode context pre1 of
                          Inl e \<Rightarrow> Inl e
                        | Inr (listCode, pre2) \<Rightarrow>
                            (case (if isFiltered
                                   then (case processNode filterNode itemContext pre2 of
                                           Inl e \<Rightarrow> Inl e
                                         | Inr (f, pre3) \<Rightarrow> Inr (Some f, pre3))
                                   else Inr (None, pre2)) of
                               Inl e \<Rightarrow> Inl e
                             | Inr (filterCode, pre3) \<Rightarrow>
                                 (case (if isMapped
                                        then (case processNode innerNode itemContext pre3 of
                                                Inl e \<Rightarrow> Inl e
                                              | Inr (i, pre4) \<Rightarrow> Inr (Some i, pre4))
                                        else Inr (None, pre3)) of
                                    Inl e \<Rightarrow> Inl e
                                  | Inr (innerCode, pre4) \<Rightarrow>
                                      Inr (TransformList_code itemVar listCode filterCode comparator
                                             maxCount innerCode, pre4)))))))"
| "processNode (BinaryOperationQueryNode lhs operator rhs) context pre =
     (case processNode lhs context pre of
        Inl e \<Rightarrow> Inl e
      | Inr (lhsCode, pre1) \<Rightarrow>
          (case processNode rhs context pre1 of
             Inl e \<Rightarrow> Inl e
           | Inr (rhsCode, pre2) \<Rightarrow>
               (case BinaryOperation_code operator lhsCode rhsCode of
                  Inl e \<Rightarrow> Inl e
                | Inr f \<Rightarrow> Inr (f, pre2))))"
| "processNode (ConditionalQueryNode condition expr1 expr2) context pre =
     (case processNode condition context pre of
        Inl e \<Rightarrow> Inl e
      | Inr (cond, pre1) \<Rightarrow>
          (case processNode expr1 context pre1 of
             Inl e \<Rightarrow> Inl e
           | Inr (e1, pre2) \<Rightarrow>
               (case processNode expr2 context pre2 of
                  Inl e \<Rightarrow> Inl e
                | Inr (e2, pre3) \<Rightarrow>
                    Inr (js [code ''('', cond, code '' ? '', e1, code '' : '', e2, code '')''],
                         pre3))))"
| "processNode (TypeCheckQueryNode valueNode type) context pre =
     (case processNode valueNode context pre of
        Inl e \<Rightarrow> Inl e
      | Inr (valueCode, pre1) \<Rightarrow> Inr (TypeCheck_code type valueCode, pre1))"
| "processNode (EntitiesQueryNode objectType) context pre =
     Inr (JSCollectionForRootEntity objectType, pre)"
| "processNode (FollowEdgeQueryNode edgeType sourceEntityNode sourceFieldSide) context pre =
     (case processNode sourceEntityNode context pre of
        Inl e \<Rightarrow> Inl e
      | Inr (object, pre1) \<Rightarrow>
          Inr (FollowEdge_code edgeType sourceFieldSide (RootEntityID_code object), pre1))"
| "processNode (CreateEntityQueryNode objectType objectNode) context pre =
     (case processNode objectNode context pre of
        Inl e \<Rightarrow> Inl e
      | Inr (objectCode, pre1) \<Rightarrow> Inr (CreateEntity_code objectType objectCode, pre1))"
| "processNode (UpdateEntitiesQueryNode objectType listNode currentEntityVariable updates)
      context pre =
     (case introduceVariable context currentEntityVariable of
        Inl e \<Rightarrow> Inl e
      | Inr newContext \<Rightarrow>
          (case getVariable newContext currentEntityVariable of
             Inl e \<Rightarrow> Inl e
           | Inr entityVar \<Rightarrow>
               (case (if updates = [] then Inr ([], pre)
                      else processProperties updates newContext pre) of
                  Inl e \<Rightarrow> Inl e
                | Inr (ps, pre1) \<Rightarrow>
                    (case processNode listNode context pre1 of
                       Inl e \<Rightarrow> Inl e
                     | Inr (listCode, pre2) \<Rightarrow>
                         Inr (UpdateEntities_code entityVar (Object_code ps) listCode, pre2)))))"
| "processNodes [] context pre = Inr ([], pre)"
| "processNodes (n # ns) context pre =
     (case processNode n context pre of
        Inl e \<Rightarrow> Inl e
      | Inr (f, pre1) \<Rightarrow>
          (case processNodes ns context pre1 of
             Inl e \<Rightarrow> Inl e
           | Inr (fs, pre2) \<Rightarrow> Inr (f # fs, pre2)))"
| "processProperty (propertyName, n) context pre =
     (case processNode n context pre of
        Inl e \<Rightarrow> Inl e
      | Inr (f, pre1) \<Rightarrow> Inr ((propertyName, f), pre1))"
| "processProperties [] context pre = Inr ([], pre)"
| "processProperties (p # ps) context pre =
     (case processProperty p context pre of
        Inl e \<Rightarrow> Inl e
      | Inr (f, pre1) \<Rightarrow>
          (case processProperties ps context pre1 of
             Inl e \<Rightarrow> Inl e
           | Inr (fs, pre2) \<Rightarrow> Inr (f # fs, pre2)))"
| "processClause (OrderClause n dir) itemVar context pre =
     (case processNode n context pre of
        Inl e \<Rightarrow> Inl e
      | Inr (f, pre1) \<Rightarrow> Inr (getClauseFnAndInvert itemVar f dir, pre1))"
| "processClauses [] itemVar context pre = Inr ([], pre)"
| "processClauses (c # cs) itemVar context pre =
     (case processClause c itemVar context pre of
        Inl e \<Rightarrow> Inl e
      | Inr (f, pre1) \<Rightarrow>
          (case processClauses cs itemVar context pre1 of
             Inl e \<Rightarrow> Inl e
           | Inr (fs, pre2) \<Rightarrow> Inr (f # fs, pre2)))"
| "addPreExecuteQuery (PreExecQueryParms preExecQuery resultVariable resultValidator) this pre =
     (case (case resultVariable of
              Some rv \<Rightarrow>
                (case newNestedContextWithNewVariable this rv (JSQueryResultVariable (label rv)) of
                   Inl e \<Rightarrow> Inl e
                 | Inr newContext \<Rightarrow> Inr (Some (JSQueryResultVariable (label rv)), newContext))
            | None \<Rightarrow> Inr (None, this)) of
        Inl e \<Rightarrow> Inl e
      | Inr (resultVar, newContext) \<Rightarrow>
          (case processNode preExecQuery (newPreExecContext this) [] of
             Inl e \<Rightarrow> Inl e
           | Inr (jsQuery, preExecQueries) \<Rightarrow>
               Inr (newContext,
                    pre @ [JSCompoundQuery preExecQueries jsQuery resultVar resultValidator])))"
| "addPreExecuteQueries [] currentContext pre = Inr (currentContext, pre)"
| "addPreExecuteQueries (preExecParm # rest) currentContext pre =
     (case addPreExecuteQuery preExecParm currentContext pre of
        Inl e \<Rightarrow> Inl e
      | Inr (nextContext, pre1) \<Rightarrow> addPreExecuteQueries rest nextContext pre1)"

definition createJSCompoundQuery ::
  "QueryNode \<Rightarrow> JSVariable option \<Rightarrow> QueryResultValidator option \<Rightarrow> QueryContext \<Rightarrow>
   generator_error + JSCompoundQuery" where
  "createJSCompoundQuery node resultVariable resultValidator context =
     (case processNode node context [] of
        Inl e \<Rightarrow> Inl e
      | Inr (jsQuery, preExecQueries) \<Rightarrow>
          Inr (JSCompoundQuery preExecQueries jsQuery resultVariable resultValidator))"

definition getJSQuery :: "QueryNode \<Rightarrow> generator_error + JSCompoundQuery" where
  "getJSQuery node =
     createJSCompoundQuery node (Some (JSQueryResultVariable ''result'')) None new_QueryContext"

text \<open>
  The literal code of a fragment: its code pieces in order, with nothing for a variable, a
  bound value or another helper's output.
\<close>

primrec code_text :: "JSFragment \<Rightarrow> string" where
  "code_text (JSCodeFragment c) = c"
| "code_text (JSVariableFragment v) = []"
| "code_text (JSBoundValue v) = []"
| "code_text (JSCompositeFragment fs) = concat (map code_text fs)"
| "code_text (JSLines fs) = concat (map code_text fs)"
| "code_text (JSIndent f) = code_text f"
| "code_text (JSJoin fs sep) = concat (map code_text fs)"
| "code_text (JSIdentifier n) = []"
| "code_text (JSString s) = []"
| "code_text (JSInteger i) = []"
| "code_text (JSCollectionForRootEntity t) = []"
| "code_text (JSCollectionForEdge e) = []"


section \<open>What the generated code computes\<close>

subsection \<open>JavaScript's own operations\<close>





fun truthy :: "jsval \<Rightarrow> bool" where
  "truthy JUndefined = False"
| "truthy JNull = False"
| "truthy (JBool b) = b"
| "truthy (JNum n) = (n \<noteq> 0)"
| "truthy (JStr s) = (s \<noteq> [])"
| "truthy (JList xs) = True"
| "truthy (JObj ps) = True"















fun insert_sorted :: "('a \<Rightarrow> 'a \<Rightarrow> int) \<Rightarrow> 'a \<Rightarrow> 'a list \<Rightarrow> 'a list" where
  "insert_sorted comparator x [] = [x]"
| "insert_sorted comparator x (y # ys) =
     (if comparator x y \<le> 0 then x # y # ys else y # insert_sorted comparator x ys)"

definition js_sort :: "('a \<Rightarrow> 'a \<Rightarrow> int) \<Rightarrow> 'a list \<Rightarrow> 'a list" where
  "js_sort comparator xs = foldr (insert_sorted comparator) xs []"

text \<open>
  \<open>Object.assign(target, source)\<close> sets the properties of the source on the target one
  by one; setting a property replaces its value where the object has the property and
  appends it otherwise. An object literal sets its properties in order on an empty object.
\<close>
type_synonym js_object = "(string \<times> jsval) list"

type_synonym heap = "nat \<Rightarrow> js_object"

fun set_property :: "js_object \<Rightarrow> string \<Rightarrow> jsval \<Rightarrow> js_object" where
  "set_property [] k v = [(k, v)]"
| "set_property ((k', v') # ps) k v =
     (if k' = k then (k, v) # ps else (k', v') # set_property ps k v)"

definition Object_assign :: "js_object \<Rightarrow> js_object \<Rightarrow> js_object" where
  "Object_assign target source = foldl (\<lambda>t (k, v). set_property t k v) target source"

definition object_literal :: "(string \<times> jsval) list \<Rightarrow> js_object" where
  "object_literal properties = foldl (\<lambda>obj (k, v). set_property obj k v) [] properties"

definition get_property :: "js_object \<Rightarrow> string \<Rightarrow> jsval" where
  "get_property obj k = (case map_of obj k of Some v \<Rightarrow> v | None \<Rightarrow> JUndefined)"

subsection \<open>The runtime the code runs against\<close>


text \<open>
  Modelled from the spec: \<open>support.getMultiComparator\<close> is not among the sources. Its
  arguments are the pairs of a key function and a descending flag that
  \<open>getClauseFnAndInvert\<close> emits; earlier clauses take priority: the first clause whose
  keys do not compare equal decides, with the operands swapped for a descending clause.
\<close>
fun getMultiComparator ::
  "(jsval \<Rightarrow> jsval \<Rightarrow> int) \<Rightarrow> ((jsval \<Rightarrow> jsval) \<times> bool) list \<Rightarrow> jsval \<Rightarrow> jsval \<Rightarrow> int" where
  "getMultiComparator compare [] lhs rhs = 0"
| "getMultiComparator compare ((valueFn, invert) # rest) lhs rhs =
     (let comparison = (if invert then compare (valueFn rhs) (valueFn lhs)
                        else compare (valueFn lhs) (valueFn rhs))
      in if comparison \<noteq> 0 then comparison else getMultiComparator compare rest lhs rhs)"

subsection \<open>Field\<close>


subsection \<open>BinaryOperation\<close>



subsection \<open>TransformList\<close>





subsection \<open>UpdateEntities\<close>

text \<open>
  The stored records are objects that the collection and the matched list share, so an
  entity is an address and the records live in a heap. \<open>updateFunction\<close> is the value and
  the effect of
  \<^verbatim>\<open>(function() { Object.assign(entity, {...updates}); return entity.id; })()\<close>
  and \<open>UpdateEntities_value\<close> of \<open>list.map(entity => ...)\<close>: the entities of the
  matched list in order, each step on the heap the steps before it left.
  \<open>ev valueNode h entity\<close> is the value of the code of an update value on the heap
  \<open>h\<close> with the entity variable bound to \<open>entity\<close>.
\<close>
definition updateFunction ::
  "(QueryNode \<Rightarrow> heap \<Rightarrow> nat \<Rightarrow> jsval) \<Rightarrow> (string \<times> QueryNode) list \<Rightarrow> nat \<Rightarrow> heap \<Rightarrow>
   jsval \<times> heap" where
  "updateFunction ev updates entity h =
     (let source = object_literal (map (\<lambda>(propertyName, valueNode).
                                     (propertyName, ev valueNode h entity)) updates);
          h1 = h(entity := Object_assign (h entity) source)
      in (get_property (h1 entity) ''id'', h1))"




subsection \<open>Pre-execution steps\<close>

text \<open>
  Modelled from the spec: the validators (query/query-result-validators) and the adapter
  that runs a compound query are not among the sources. Pre-execution steps run strictly in
  declaration order, each fully completed, its validator included, before the next begins
  and before the main operation runs; a validator failure (for
  \<open>ErrorIfNotTruthyResultValidator\<close>: a result that is not truthy) aborts the remaining
  steps and the main operation without executing them. \<open>sem node\<close> is what running the
  code of \<open>node\<close> does: from the bound result variables and the database to a value or a
  failure, and the database after it.
\<close>

datatype query_failure = EvaluationError string | ValidationError string string

fun validate :: "QueryResultValidator option \<Rightarrow> jsval \<Rightarrow> query_failure option" where
  "validate None result = None"
| "validate (Some (ErrorIfNotTruthyResultValidator errorMessage errorName)) result =
     (if truthy result then None else Some (ValidationError errorName errorMessage))"

type_synonym bindings = "(VariableNode \<times> jsval) list"

type_synonym 'db evaluation = "bindings \<Rightarrow> 'db \<Rightarrow> (query_failure + jsval) \<times> 'db"

fun execute_steps ::
  "(QueryNode \<Rightarrow> 'db evaluation) \<Rightarrow> PreExecQueryParms list \<Rightarrow> bindings \<Rightarrow> 'db \<Rightarrow>
   (query_failure + bindings) \<times> 'db" where
  "execute_steps sem [] binds db = (Inr binds, db)"
| "execute_steps sem (PreExecQueryParms preExecQuery resultVariable resultValidator # rest) binds db =
     (case sem preExecQuery binds db of
        (Inl failure, db1) \<Rightarrow> (Inl failure, db1)
      | (Inr result, db1) \<Rightarrow>
          (case validate resultValidator result of
             Some failure \<Rightarrow> (Inl failure, db1)
           | None \<Rightarrow>
               execute_steps sem rest
                 (case resultVariable of Some v \<Rightarrow> binds @ [(v, result)] | None \<Rightarrow> binds) db1))"

fun execute :: "(QueryNode \<Rightarrow> 'db evaluation) \<Rightarrow> QueryNode \<Rightarrow> 'db evaluation" where
  "execute sem (WithPreExecutionQueryNode preExecQueries resultNode) binds db =
     (case execute_steps sem preExecQueries binds db of
        (Inl failure, db1) \<Rightarrow> (Inl failure, db1)
      | (Inr binds1, db1) \<Rightarrow> sem resultNode binds1 db1)"
| "execute sem node binds db = sem node binds db"


section \<open>Example inputs\<close>




definition example_type :: GraphQLObjectType where
  "example_type = GraphQLObjectType ''Delivery''
     [(''id'', GraphQLField ''id''), (''accessGroup'', GraphQLField ''accessGroup''),
      (''n'', GraphQLField ''n'')]"

definition example_edge :: EdgeType where
  "example_edge = \<lparr>fromType = GraphQLObjectType ''Order'' [(''deliveries'', GraphQLField ''deliveries'')],
                   fromField = GraphQLField ''deliveries'',
                   toType = example_type, toField = None\<rparr>"

definition example_descriptors ::
  "GraphQLObjectType \<Rightarrow> GraphQLField option \<Rightarrow> PermissionDescriptor" where
  "example_descriptors t f =
     \<lparr>canAccess = (\<lambda>authContext operation. case f of Some x \<Rightarrow> GRANTED | None \<Rightarrow> CONDITIONAL),
      getAccessCondition = (\<lambda>authContext operation node.
          BinaryOperationQueryNode node IN (LiteralQueryNode (JList (map JStr (authRoles authContext))))),
      getExplanationForCondition = (\<lambda>authContext operation c. ''set this accessGroup'')\<rparr>"

definition example_auth :: AuthContext where
  "example_auth = \<lparr>authRoles = [''logistics'']\<rparr>"



section \<open>Properties of the error-propagation pass\<close>

text \<open>
  A value entered at a non-output position, and everything below it, comes back as it was:
  the stack is restored and the errors met are appended to the pending list. The same holds
  for the fields of an object none of whose fields is an output field.
\<close>

lemma visit_non_output:
  "\<not> child_is_output (stack st) key \<Longrightarrow>
     visitObject v key st = (v, st\<lparr>errorList := errorList st @ errors_of v\<rparr>)"
  "\<not> child_is_output (stack st) key \<Longrightarrow>
     visitObjectOrArray v key st = (v, st\<lparr>errorList := errorList st @ errors_of_value v\<rparr>)"
  "stack st \<noteq> [] \<Longrightarrow> (\<forall>k \<in> fst ` set fs. \<not> child_is_output (stack st) (Some k)) \<Longrightarrow>
     visitFields fs st = (fs, st\<lparr>errorList := errorList st @ errors_of_fields fs\<rparr>)"
  "\<not> child_is_output (stack st) key \<Longrightarrow>
     visitItems xs key st = (xs, st\<lparr>errorList := errorList st @ errors_of_items xs\<rparr>)"
proof (induction v key st and v key st and fs st and xs key st
       rule: visitObject_visitObjectOrArray_visitFields_visitItems.induct)
  case (1 c fs key st)
  show ?case
  proof (cases "instanceof_QueryNode (Obj c fs)")
    case False
    then show ?thesis by (simp add: enter_def)
  next
    case True
    define st1 where "st1 = snd (enter (Obj c fs) key st)"
    have ne: "stack st \<noteq> []" using 1(2) by (auto simp: child_is_output_def)
    have e: "enter (Obj c fs) key st = (Inr (Obj c fs), st1)"
      using True ne 1(2) by (simp add: st1_def enter_def Let_def)
    have s1: "stack st1 = stack st @ [\<lparr>clazz = c, isOutputNode = False\<rparr>]"
      using True ne 1(2) by (auto simp add: st1_def enter_def Let_def child_is_output_def)
    have el1: "errorList st1 = errorList st
                 @ (if instanceof_RuntimeErrorQueryNode (Obj c fs) then [Obj c fs] else [])"
      using True ne 1(2) by (auto simp add: st1_def enter_def Let_def child_is_output_def)
    have "visitFields fs st1 = (fs, st1\<lparr>errorList := errorList st1 @ errors_of_fields fs\<rparr>)"
      apply (rule 1(1)[OF e[symmetric] refl])
      using s1 by (auto simp: child_is_output_def)
    then show ?thesis
      using e True s1 el1 by (simp add: leave_def Let_def)
  qed
next
  case (2 p key st)
  then show ?case by (simp add: enter_def)
next
  case (3 xs key st)
  then show ?case by (simp add: enter_def)
next
  case (4 p key st)
  then show ?case by simp
next
  case (5 xs key st)
  then show ?case by simp
next
  case (6 c fs key st)
  then show ?case by simp
next
  case (7 st)
  then show ?case by simp
next
  case (8 field oldValue fs st)
  have a: "visitObjectOrArray oldValue (Some field) st =
             (oldValue, st\<lparr>errorList := errorList st @ errors_of_value oldValue\<rparr>)"
    using 8 by simp
  have b: "visitFields fs (st\<lparr>errorList := errorList st @ errors_of_value oldValue\<rparr>) =
             (fs, st\<lparr>errorList := errorList st @ errors_of_value oldValue @ errors_of_fields fs\<rparr>)"
    using 8(2)[OF a[symmetric]] 8(3,4) by simp
  show ?case using a b by simp
next
  case (9 key st)
  then show ?case by simp
next
  case (10 item items key st)
  have a: "visitObject item key st = (item, st\<lparr>errorList := errorList st @ errors_of item\<rparr>)"
    using 10 by simp
  have b: "visitItems items key (st\<lparr>errorList := errorList st @ errors_of item\<rparr>) =
             (items, st\<lparr>errorList := errorList st @ errors_of item @ errors_of_items items\<rparr>)"
    using 10(2)[OF a[symmetric]] 10(3) by simp
  show ?case using a b by simp
qed





text \<open>
  C1 (as amended). A value at a non-output position is never substituted: the pass returns
  it, and everything below it, unchanged, restores the stack, and only appends the
  \<open>RuntimeErrorQueryNode\<close>s it met, in the order met, to the pending error list. Those
  pending errors are what replaces an output-position node that is left later.
\<close>

theorem non_output_position_is_unchanged:
  "\<not> child_is_output (stack st) key \<Longrightarrow>
     visitObject v key st = (v, st\<lparr>errorList := errorList st @ errors_of v\<rparr>)"
  by (rule visit_non_output(1))

theorem non_output_position_is_unchanged_witness:
  "visitObject (new_RuntimeErrorQueryNode ''denied'') (Some ''filterNode'')
     \<lparr>errorList = [], stack = [\<lparr>clazz = QueryNodeClass ''TransformListQueryNode'', isOutputNode = True\<rparr>]\<rparr>
   = (new_RuntimeErrorQueryNode ''denied'',
      \<lparr>errorList = [new_RuntimeErrorQueryNode ''denied''],
       stack = [\<lparr>clazz = QueryNodeClass ''TransformListQueryNode'', isOutputNode = True\<rparr>]\<rparr>)"
  using non_output_position_is_unchanged
    [of "\<lparr>errorList = [], stack = [\<lparr>clazz = QueryNodeClass ''TransformListQueryNode'', isOutputNode = True\<rparr>]\<rparr>"
        "Some ''filterNode''" "new_RuntimeErrorQueryNode ''denied''"]
  by (simp add: child_is_output_def outputNodes_isOutputNode_def outputNodes_map_def new_RuntimeErrorQueryNode_def)

text \<open>
  C1 (as stated) fails: in \<open>filtered_list_example\<close> the only error is the filter of a
  list transformation, which is no output field, and still the pass replaces the root, an
  output position, by that error.
\<close>

theorem filter_error_replaces_root_counterexample:
  "output_errors True filtered_list_example = []
   \<and> moveErrorsToOutputNodes filtered_list_example = new_RuntimeErrorQueryNode ''denied''
   \<and> moveErrorsToOutputNodes filtered_list_example \<noteq> filtered_list_example"
  by (simp add: filtered_list_example_def moveErrorsToOutputNodes_def enter_def leave_def
        new_RuntimeErrorQueryNode_def outputNodes_isOutputNode_def outputNodes_map_def)




section \<open>Properties of the authorization transformers\<close>

text \<open>
  C4. A \<open>FollowEdgeQueryNode\<close> whose source field exists and may be read: the verdict on
  the target entity type decides. GRANTED returns the node unchanged; DENIED returns a
  \<open>RuntimeErrorQueryNode\<close> whose message is fixed text around the names of the target
  type, the source type and the source field, and nothing else; CONDITIONAL, for a target
  type with an \<open>accessGroup\<close> field, returns a \<open>TransformListQueryNode\<close> over the
  original node that is unordered, uncapped and unmapped and whose filter is the access
  condition on the \<open>accessGroup\<close> field of the item.
\<close>
theorem follow_edge_verdicts:
  assumes "getFieldOfSide edgeType sourceFieldSide = Some sourceField"
      and "canAccess (getPermissionDescriptor (getTypeOfSide edgeType sourceFieldSide)
                        (Some sourceField)) authContext READ = GRANTED"
      and "node = FollowEdgeQueryNode edgeType sourceEntityNode sourceFieldSide"
      and "sourceType = getTypeOfSide edgeType sourceFieldSide"
      and "targetType = getTypeOfSide edgeType (invertRelationFieldEdgeSide sourceFieldSide)"
      and "entityAccess = canAccess (getPermissionDescriptor targetType None) authContext READ"
      and "itemVar = VariableNode fresh ''item''"
  shows "(entityAccess = GRANTED \<longrightarrow>
            transformFollowEdgeQueryNode getPermissionDescriptor fresh node authContext = Inr node)
       \<and> (entityAccess = DENIED \<longrightarrow>
            transformFollowEdgeQueryNode getPermissionDescriptor fresh node authContext =
              Inr (RuntimeErrorQueryNode
                     (''Not authorized to read '' @ type_name targetType
                      @ '' objects by following '' @ type_name sourceType @ ''.''
                      @ field_name sourceField)))
       \<and> (entityAccess = CONDITIONAL \<longrightarrow>
            (\<forall>accessGroupField.
               map_of (getFields targetType) ''accessGroup'' = Some accessGroupField \<longrightarrow>
               transformFollowEdgeQueryNode getPermissionDescriptor fresh node authContext =
                 Inr (TransformListQueryNode node itemVar
                        (getAccessCondition (getPermissionDescriptor targetType None) authContext
                           READ (FieldQueryNode (VariableQueryNode itemVar) accessGroupField
                                   targetType))
                        [] None (VariableQueryNode itemVar))))"
  using assms(1,2)
  unfolding assms(3,4,5,6,7)
  by (simp add: Let_def new_TransformListQueryNode_def)

theorem follow_edge_verdicts_witness:
  "transformFollowEdgeQueryNode example_descriptors 7
     (FollowEdgeQueryNode example_edge NullQueryNode FROM_SIDE) example_auth =
   Inr (TransformListQueryNode (FollowEdgeQueryNode example_edge NullQueryNode FROM_SIDE)
          (VariableNode 7 ''item'')
          (BinaryOperationQueryNode
             (FieldQueryNode (VariableQueryNode (VariableNode 7 ''item''))
                (GraphQLField ''accessGroup'') example_type)
             IN (LiteralQueryNode (JList [JStr ''logistics''])))
          [] None (VariableQueryNode (VariableNode 7 ''item'')))"
proof -
  have 1: "getFieldOfSide example_edge FROM_SIDE = Some (GraphQLField ''deliveries'')"
    by (simp add: getFieldOfSide_def example_edge_def)
  have 2: "canAccess (example_descriptors (getTypeOfSide example_edge FROM_SIDE)
                        (Some (GraphQLField ''deliveries''))) example_auth READ = GRANTED"
    by (simp add: example_descriptors_def)
  show ?thesis
    using follow_edge_verdicts[where getPermissionDescriptor = example_descriptors
                   and edgeType = example_edge and sourceFieldSide = FROM_SIDE
                   and sourceField = "GraphQLField ''deliveries''"
                   and authContext = example_auth and sourceEntityNode = NullQueryNode
                   and fresh = 7, OF 1 2 refl refl refl refl refl]
    by (simp add: example_descriptors_def example_edge_def example_type_def example_auth_def
          getTypeOfSide_def invertRelationFieldEdgeSide_def)
qed

text \<open>
  C5. A \<open>CreateEntityQueryNode\<close> with the verdict CONDITIONAL becomes a
  \<open>WithPreExecutionQueryNode\<close> whose result node is the original node and whose only
  pre-execution step has the access condition as its query, no result variable, and a
  validator that fails when the result is not truthy. When the condition evaluates to a
  value that is not truthy, running the tree ends with the validator's failure in the
  database state that the condition left: the code of the \<open>CreateEntityQueryNode\<close> is not
  run.
\<close>
theorem conditional_create_is_guarded:
  assumes "canAccess (getPermissionDescriptor objectType None) authContext WRITE = CONDITIONAL"
      and "condition = getAccessCondition (getPermissionDescriptor objectType None) authContext
                         WRITE objectNode"
      and "validator = ErrorIfNotTruthyResultValidator
             (''Not authorized to '' @ getExplanationForCondition
                 (getPermissionDescriptor objectType None) authContext WRITE SET)
             AUTHORIZATION_ERROR_NAME"
      and "node = CreateEntityQueryNode objectType objectNode"
  shows "transformCreateEntityQueryNode getPermissionDescriptor node authContext =
           WithPreExecutionQueryNode [PreExecQueryParms condition None (Some validator)] node
       \<and> (\<forall>sem binds db result db1.
             sem condition binds db = (Inr result, db1) \<and> \<not> truthy result \<longrightarrow>
             execute sem (transformCreateEntityQueryNode getPermissionDescriptor node authContext)
               binds db =
               (Inl (ValidationError AUTHORIZATION_ERROR_NAME
                       (''Not authorized to '' @ getExplanationForCondition
                           (getPermissionDescriptor objectType None) authContext WRITE SET)),
                db1))"
  using assms(1) unfolding assms(2,3,4) by (simp add: Let_def)

theorem conditional_create_is_guarded_witness:
  "execute (\<lambda>node binds db. (Inr (JBool False), db))
     (transformCreateEntityQueryNode example_descriptors
        (CreateEntityQueryNode example_type (ObjectQueryNode [])) example_auth) [] (0::nat)
   = (Inl (ValidationError AUTHORIZATION_ERROR_NAME ''Not authorized to set this accessGroup''), 0)"
proof -
  have 1: "canAccess (example_descriptors example_type None) example_auth WRITE = CONDITIONAL"
    by (simp add: example_descriptors_def)
  show ?thesis
    using conditional_create_is_guarded[where getPermissionDescriptor = example_descriptors
                   and objectType = example_type and authContext = example_auth
                   and objectNode = "ObjectQueryNode []", OF 1 refl refl refl]
    by (simp add: example_descriptors_def)
qed


section \<open>Properties of the generator's scopes and code\<close>

text \<open>
  A variable that the enclosing scope binds as an ordinary variable is not bound in the
  scope of a pre-execution query.
\<close>
lemma map_of_newPreExecContext_ordinary:
  assumes "distinct (map fst (variableMap context))"
      and "map_of (variableMap context) v = Some (JSVariable l)"
  shows "map_of (variableMap (newPreExecContext context)) v = None"
proof -
  have "(v, y) \<in> set (variableMap context) \<Longrightarrow> y = JSVariable l" for y
    using assms by simp
  then have "(v, y) \<in> set (variableMap context) \<Longrightarrow> \<not> instanceof_JSQueryResultVariable y" for y
    by fastforce
  then have "v \<notin> fst ` set (variableMap (newPreExecContext context))"
    by (auto simp: newPreExecContext_def)
  then show ?thesis by (simp add: map_of_eq_None_iff)
qed

text \<open>
  C8. In a context that binds \<open>v\<close> as an ordinary variable (a variable map has one entry
  per key), with a step whose own result variable is new: the scope of a pre-execution
  query holds exactly the result-variable entries of the context (the results of the steps
  declared before it) and no ordinary one; the query of a step is compiled by
  \<open>createJSCompoundQuery\<close> in that scope with a pre-execution list of its own, and only
  the context returned for what follows gains the step's result variable; and a step whose
  query refers to \<open>v\<close> ends the compilation of the \<open>WithPreExecutionQueryNode\<close> with
  the error that \<open>v\<close> is used but not introduced.
\<close>
theorem pre_exec_scope_is_isolated:
  assumes "distinct (map fst (variableMap context))"
      and "map_of (variableMap context) v = Some (JSVariable l)"
      and "case resultVariable of None \<Rightarrow> True
           | Some rv \<Rightarrow> rv \<notin> fst ` set (variableMap context)"
  shows "set (variableMap (newPreExecContext context)) =
           {(varNode, jsVar). (varNode, jsVar) \<in> set (variableMap context)
                              \<and> instanceof_JSQueryResultVariable jsVar}
       \<and> addPreExecuteQuery (PreExecQueryParms preExecQuery resultVariable resultValidator)
           context pre =
           (case createJSCompoundQuery preExecQuery
                   (map_option (\<lambda>rv. JSQueryResultVariable (label rv)) resultVariable)
                   resultValidator (newPreExecContext context) of
              Inl e \<Rightarrow> Inl e
            | Inr jsQuery \<Rightarrow>
                Inr (case resultVariable of
                       None \<Rightarrow> context
                     | Some rv \<Rightarrow>
                         \<lparr>variableMap = variableMap context
                                          @ [(rv, JSQueryResultVariable (label rv))]\<rparr>,
                     pre @ [jsQuery]))
       \<and> processNode (WithPreExecutionQueryNode
                        (PreExecQueryParms (VariableQueryNode v) resultVariable resultValidator
                         # rest)
                        resultNode) context pre
           = Inl (UsedButNotIntroduced v)"
proof (intro conjI)
  show "set (variableMap (newPreExecContext context)) =
     {(varNode, jsVar). (varNode, jsVar) \<in> set (variableMap context)
                        \<and> instanceof_JSQueryResultVariable jsVar}"
    by (auto simp: newPreExecContext_def)
next
  show "addPreExecuteQuery (PreExecQueryParms preExecQuery resultVariable resultValidator)
           context pre =
           (case createJSCompoundQuery preExecQuery
                   (map_option (\<lambda>rv. JSQueryResultVariable (label rv)) resultVariable)
                   resultValidator (newPreExecContext context) of
              Inl e \<Rightarrow> Inl e
            | Inr jsQuery \<Rightarrow>
                Inr (case resultVariable of
                       None \<Rightarrow> context
                     | Some rv \<Rightarrow>
                         \<lparr>variableMap = variableMap context
                                          @ [(rv, JSQueryResultVariable (label rv))]\<rparr>,
                     pre @ [jsQuery]))"
  proof (cases resultVariable)
    case None
    then show ?thesis
      by (simp add: createJSCompoundQuery_def split: sum.splits prod.splits)
  next
    case (Some rv)
    then have "rv \<notin> fst ` set (variableMap context)" using assms(3) by simp
    then show ?thesis using Some
      by (simp add: createJSCompoundQuery_def newNestedContextWithNewVariable_def
               split: sum.splits prod.splits)
  qed
next
  have n: "map_of (variableMap (newPreExecContext context)) v = None"
    using assms(1,2) by (rule map_of_newPreExecContext_ordinary)
  have g: "getVariable (newPreExecContext context) v = Inl (UsedButNotIntroduced v)"
    by (simp add: getVariable_def n)
  show "processNode (WithPreExecutionQueryNode
                        (PreExecQueryParms (VariableQueryNode v) resultVariable resultValidator
                         # rest)
                        resultNode) context pre
           = Inl (UsedButNotIntroduced v)"
  proof (cases resultVariable)
    case None
    then show ?thesis by (simp add: g)
  next
    case (Some rv)
    then have "rv \<notin> fst ` set (variableMap context)" using assms(3) by simp
    then show ?thesis using Some by (simp add: g newNestedContextWithNewVariable_def)
  qed
qed

theorem pre_exec_scope_is_isolated_witness:
  "processNode (WithPreExecutionQueryNode
                  [PreExecQueryParms (VariableQueryNode (VariableNode 1 ''x'')) None None]
                  NullQueryNode)
     \<lparr>variableMap = [(VariableNode 1 ''x'', JSVariable ''x'')]\<rparr> []
   = Inl (UsedButNotIntroduced (VariableNode 1 ''x''))"
proof -
  have 1: "distinct (map fst (variableMap \<lparr>variableMap = [(VariableNode 1 ''x'', JSVariable ''x'')]\<rparr>))"
    by simp
  have 2: "map_of (variableMap \<lparr>variableMap = [(VariableNode 1 ''x'', JSVariable ''x'')]\<rparr>)
             (VariableNode 1 ''x'') = Some (JSVariable ''x'')"
    by simp
  have 3: "case None of None \<Rightarrow> True
           | Some rv \<Rightarrow> rv \<notin> fst ` set (variableMap
                \<lparr>variableMap = [(VariableNode 1 ''x'', JSVariable ''x'')]\<rparr>)"
    by simp
  show ?thesis
    by (rule pre_exec_scope_is_isolated[OF 1 2 3, where rest = "[]" and resultNode = NullQueryNode
                      and resultValidator = None and pre = "[]"
                      and preExecQuery = NullQueryNode, THEN conjunct2, THEN conjunct2])
qed

text \<open>
  C9 (what the code does). For the check of kind SCALAR on the literal 5 the generator
  succeeds, and the literal code of the fragment it returns has an opening quote before
  \<open>number\<close> that is never closed: the number of quote characters in it is odd.
\<close>
theorem scalar_type_check_code_has_open_quote:
  "processNode (TypeCheckQueryNode (LiteralQueryNode (JNum 5)) SCALAR) new_QueryContext [] =
     Inr (TypeCheck_code SCALAR (js [JSBoundValue (JNum 5)]), [])
   \<and> code_text (TypeCheck_code SCALAR (js [JSBoundValue (JNum 5)])) =
       ''( => ((typeof  == 'boolean' || typeof  == 'number || typeof  == 'string')))(())''
   \<and> odd (count_list (code_text (TypeCheck_code SCALAR (js [JSBoundValue (JNum 5)]))) (CHR 0x27))"
  by (simp add: TypeCheck_code_def evaluatingLambda_def lambda_def js_variable_def Let_def)


section \<open>Properties of the generated code\<close>





text \<open>
  The model of \<open>sort\<close> keeps the items, leaves items that the comparator ties in their
  order, and sorts when the comparator is a total preorder; an unordered list is left as it
  is.
\<close>
lemma mset_insert_sorted: "mset (insert_sorted c x ys) = add_mset x (mset ys)"
  by (induction ys) auto

lemma mset_js_sort: "mset (js_sort c xs) = mset xs"
  by (induction xs) (auto simp: js_sort_def mset_insert_sorted)

lemma filter_insert_sorted:
  assumes "\<forall>y \<in> set ys. P x \<and> P y \<longrightarrow> c x y \<le> 0"
  shows "filter P (insert_sorted c x ys) = (if P x then x # filter P ys else filter P ys)"
  using assms by (induction ys) auto

lemma js_sort_stable:
  assumes "\<forall>x y. P x \<and> P y \<longrightarrow> c x y \<le> 0"
  shows "filter P (js_sort c xs) = filter P xs"
proof (induction xs)
  case Nil
  then show ?case by (simp add: js_sort_def)
next
  case (Cons x xs)
  have "filter P (insert_sorted c x (js_sort c xs))
        = (if P x then x # filter P (js_sort c xs) else filter P (js_sort c xs))"
    by (rule filter_insert_sorted) (use assms in blast)
  then show ?case using Cons by (simp add: js_sort_def)
qed

lemma sorted_insert_sorted:
  assumes total: "\<forall>x y. c x y \<le> 0 \<or> c y x \<le> 0"
      and trans: "\<forall>x y z. c x y \<le> 0 \<and> c y z \<le> 0 \<longrightarrow> c x z \<le> 0"
  shows "sorted_wrt (\<lambda>a b. c a b \<le> 0) ys \<Longrightarrow> sorted_wrt (\<lambda>a b. c a b \<le> 0) (insert_sorted c x ys)"
proof (induction ys)
  case Nil
  then show ?case by simp
next
  case (Cons y ys)
  have s: "set (insert_sorted c x ys) = insert x (set ys)"
    by (induction ys) auto
  have tail: "sorted_wrt (\<lambda>a b. c a b \<le> 0) ys" and head: "\<forall>z \<in> set ys. c y z \<le> 0"
    using Cons.prems by simp_all
  show ?case
  proof (cases "c x y \<le> 0")
    case True
    have "c x z \<le> 0" if "z \<in> set ys" for z
    proof -
      have "c y z \<le> 0" using head that by blast
      with True trans show ?thesis by blast
    qed
    then show ?thesis using True Cons.prems by simp
  next
    case False
    then have "c y x \<le> 0" using total by blast
    then have "\<forall>z \<in> set (insert_sorted c x ys). c y z \<le> 0"
      using head by (simp add: s)
    moreover have "sorted_wrt (\<lambda>a b. c a b \<le> 0) (insert_sorted c x ys)"
      using tail by (rule Cons.IH)
    ultimately show ?thesis using False by simp
  qed
qed

lemma sorted_js_sort:
  assumes "\<forall>x y. c x y \<le> 0 \<or> c y x \<le> 0"
      and "\<forall>x y z. c x y \<le> 0 \<and> c y z \<le> 0 \<longrightarrow> c x z \<le> 0"
  shows "sorted_wrt (\<lambda>a b. c a b \<le> 0) (js_sort c xs)"
  by (induction xs) (auto simp: js_sort_def sorted_insert_sorted[OF assms])


















end
